theory Spec2Isabelle
  imports Main "HOL-Library.Multiset"
begin

section \<open>Values and objects\<close>

text \<open>
  The server is TypeScript on Node. A request body, a validated update and a row of the
  \<^verbatim>\<open>leads\<close> table are JavaScript objects, read by key (the update route reads
  \<^verbatim>\<open>(updates as any)[field]\<close> and \<^verbatim>\<open>(currentLead as any)[field]\<close>), so an object is a
  function from keys to values, with \<open>Undefined\<close> for a key that is absent. Numbers other
  than integers, arrays and nested objects do not occur in the rows and are rejected by
  every validator below exactly as \<open>Num\<close> is.
\<close>

datatype val = Undefined | Null | Bool bool | Num int | Str string | Date nat

type_synonym obj = "string \<Rightarrow> val"

definition empty_obj :: obj where
  "empty_obj = (\<lambda>k. Undefined)"

text \<open>JavaScript truthiness, and \<^verbatim>\<open>a || b\<close>.\<close>

definition truthy :: "val \<Rightarrow> bool" where
  "truthy v = (case v of Undefined \<Rightarrow> False | Null \<Rightarrow> False | Bool b \<Rightarrow> b
     | Num n \<Rightarrow> n \<noteq> 0 | Str s \<Rightarrow> s \<noteq> [] | Date t \<Rightarrow> True)"

definition or_else :: "val \<Rightarrow> val \<Rightarrow> val" where
  "or_else a b = (if truthy a then a else b)"

section \<open>The tables (shared/schema.ts)\<close>

datatype role = Manager | HR | Accounts | Admin

text \<open>
  Of the \<^verbatim>\<open>users\<close> table the routes read the id, the role and the active flag
  (a nullable boolean); the other columns (names, e-mail, password hash) are left out.
\<close>

record user =
  user_id :: string
  user_role :: role
  user_isActive :: "bool option"

text \<open>
  The \<^verbatim>\<open>changeData\<close> column is JSON. The code writes six shapes of it, one per
  constructor, with the payload fields in the order of the source.
\<close>

datatype changeData =
    Assignment val string
  | StatusUpdate obj
  | Handoff string val string
  | FieldChanges "(string \<times> val \<times> val) list" obj
  | Unassigned val string nat
  | Deleted obj string nat

text \<open>\<^verbatim>\<open>InsertLeadHistory\<close>: a row of \<^verbatim>\<open>lead_history\<close> without its id and timestamp.\<close>

record insertLeadHistory =
  leadId :: int
  fromUserId :: val
  toUserId :: val
  previousStatus :: val
  newStatus :: val
  changeReason :: val
  changeData :: changeData
  changedByUserId :: string

record leadHistory_row = insertLeadHistory +
  history_id :: nat
  changedAt :: nat

record insertNotification =
  n_userId :: string
  n_title :: string
  n_message :: string
  n_type :: string
  n_relatedLeadId :: int

record notification = insertNotification +
  notification_id :: nat
  n_isRead :: bool
  n_createdAt :: nat

text \<open>
  The database. \<^verbatim>\<open>leads\<close> is keyed by its primary key and holds the other columns of
  the row as an object; \<^verbatim>\<open>users\<close> is a list, in the order in which a select without
  \<^verbatim>\<open>ORDER BY\<close> returns the rows; \<^verbatim>\<open>lead_history\<close> and \<^verbatim>\<open>notifications\<close> are lists
  in insertion order. The two identity columns draw from sequences, which a rollback
  does not reset.
\<close>

record db =
  users :: "user list"
  leads :: "int \<Rightarrow> obj option"
  leadHistory :: "leadHistory_row list"
  notifications :: "notification list"
  leadHistory_seq :: nat
  notifications_seq :: nat

text \<open>The four tables, without the sequences.\<close>

definition tables :: "db \<Rightarrow> user list \<times> (int \<Rightarrow> obj option) \<times> leadHistory_row list \<times> notification list" where
  "tables d = (users d, leads d, leadHistory d, notifications d)"

definition lead_columns :: "string list" where
  "lead_columns = [''name'', ''email'', ''phone'', ''location'', ''degree'', ''domain'',
     ''sessionDays'', ''walkinDate'', ''walkinTime'', ''timing'', ''currentOwnerId'',
     ''sourceManagerId'', ''status'', ''isActive'', ''notes'', ''yearOfPassing'',
     ''collegeName'', ''registrationAmount'', ''pendingAmount'', ''createdAt'', ''updatedAt'']"

section \<open>The environment of a request\<close>

text \<open>
  What a request handler takes from outside the repository:
  \<^item> \<open>clock env s\<close> is the time read by the storage call at call site \<open>s\<close> of the handler
    (\<^verbatim>\<open>new Date()\<close> and the column default \<^verbatim>\<open>now()\<close>);
  \<^item> \<open>fault env s k\<close> says that statement \<open>k\<close> of the storage call at call site \<open>s\<close> is
    rejected by the store (a lost connection, a violated constraint): the statement
    throws and changes nothing. Foreign keys are not modelled apart from this;
  \<^item> \<open>email_ok\<close> is the e-mail pattern of the validation library;
  \<^item> \<open>parseFloat env s\<close> is \<^verbatim>\<open>parseFloat(s)\<close> printed back with \<^verbatim>\<open>toString()\<close>, and
    \<open>None\<close> when the result is \<^verbatim>\<open>NaN\<close>.
  The call sites of each handler are numbered in its definition.
\<close>

record env =
  clock :: "nat \<Rightarrow> nat"
  fault :: "nat \<Rightarrow> nat \<Rightarrow> bool"
  email_ok :: "string \<Rightarrow> bool"
  parseFloat :: "string \<Rightarrow> string option"

text \<open>What a storage call throws.\<close>

datatype exn = Lead_not_found | Lead_already_assigned | Store_failure | TypeError

datatype 'a result = Threw exn | Ok 'a

section \<open>Storage (DatabaseStorage)\<close>

subsection \<open>Statements\<close>

text \<open>
  \<^verbatim>\<open>update(leads).set(values).where(and(eq(leads.id, leadId), cond)).returning()\<close>:
  the keys of \<open>values\<close> that are columns and are not \<^verbatim>\<open>undefined\<close> are written, the
  other keys are ignored; the result is the list of the rows written (none or one, the
  id being the primary key, which no caller writes).
\<close>

definition set_columns :: "obj \<Rightarrow> obj \<Rightarrow> obj" where
  "set_columns values row =
     (\<lambda>c. if c \<in> set lead_columns \<and> values c \<noteq> Undefined then values c else row c)"

definition update_leads :: "bool \<Rightarrow> int \<Rightarrow> (obj \<Rightarrow> bool) \<Rightarrow> obj \<Rightarrow> db \<Rightarrow> obj list result \<times> db" where
  "update_leads f lid cond values d =
     (if f then (Threw Store_failure, d)
      else case leads d lid of
        None \<Rightarrow> (Ok [], d)
      | Some row \<Rightarrow>
          if cond row
          then (let row' = set_columns values row
                in (Ok [row'], d\<lparr>leads := (leads d)(lid \<mapsto> row')\<rparr>))
          else (Ok [], d))"

text \<open>\<^verbatim>\<open>insert(leadHistory).values(v).returning()\<close>: the id comes from the sequence,
  \<^verbatim>\<open>changedAt\<close> from the column default.\<close>

definition insert_leadHistory :: "bool \<Rightarrow> nat \<Rightarrow> insertLeadHistory \<Rightarrow> db \<Rightarrow> leadHistory_row result \<times> db" where
  "insert_leadHistory f now v d =
     (if f then (Threw Store_failure, d)
      else (let row = \<lparr>leadId = leadId v, fromUserId = fromUserId v, toUserId = toUserId v,
                        previousStatus = previousStatus v, newStatus = newStatus v,
                        changeReason = changeReason v, changeData = changeData v,
                        changedByUserId = changedByUserId v,
                        history_id = Suc (leadHistory_seq d), changedAt = now\<rparr>
            in (Ok row, d\<lparr>leadHistory := leadHistory d @ [row],
                           leadHistory_seq := Suc (leadHistory_seq d)\<rparr>)))"

definition insert_notification :: "bool \<Rightarrow> nat \<Rightarrow> insertNotification \<Rightarrow> db \<Rightarrow> notification result \<times> db" where
  "insert_notification f now v d =
     (if f then (Threw Store_failure, d)
      else (let row = \<lparr>n_userId = n_userId v, n_title = n_title v, n_message = n_message v,
                        n_type = n_type v, n_relatedLeadId = n_relatedLeadId v,
                        notification_id = Suc (notifications_seq d), n_isRead = False,
                        n_createdAt = now\<rparr>
            in (Ok row, d\<lparr>notifications := notifications d @ [row],
                           notifications_seq := Suc (notifications_seq d)\<rparr>)))"

definition delete_leadHistory :: "bool \<Rightarrow> int \<Rightarrow> db \<Rightarrow> unit result \<times> db" where
  "delete_leadHistory f lid d =
     (if f then (Threw Store_failure, d)
      else (Ok (), d\<lparr>leadHistory := filter (\<lambda>h. leadId h \<noteq> lid) (leadHistory d)\<rparr>))"

definition delete_leads :: "bool \<Rightarrow> int \<Rightarrow> db \<Rightarrow> unit result \<times> db" where
  "delete_leads f lid d =
     (if f then (Threw Store_failure, d)
      else (Ok (), d\<lparr>leads := (leads d)(lid := None)\<rparr>))"

text \<open>
  \<^verbatim>\<open>db.transaction(body)\<close>: when the body throws, the tables are as before the
  transaction (the sequences keep what the body drew) and the exception goes on to the
  caller; otherwise the body's writes are committed.
\<close>

definition transaction :: "(db \<Rightarrow> 'a result \<times> db) \<Rightarrow> db \<Rightarrow> 'a result \<times> db" where
  "transaction body d =
     (case body d of
        (Threw e, tx) \<Rightarrow>
          (Threw e, d\<lparr>leadHistory_seq := leadHistory_seq tx,
                       notifications_seq := notifications_seq tx\<rparr>)
      | (Ok x, tx) \<Rightarrow> (Ok x, tx))"

subsection \<open>Methods\<close>

definition getUser :: "bool \<Rightarrow> db \<Rightarrow> string \<Rightarrow> user option result" where
  "getUser f d uid =
     (if f then Threw Store_failure else Ok (find (\<lambda>u. user_id u = uid) (users d)))"

definition getUsersByRole :: "bool \<Rightarrow> db \<Rightarrow> role \<Rightarrow> user list result" where
  "getUsersByRole f d r =
     (if f then Threw Store_failure
      else Ok (filter (\<lambda>u. user_role u = r \<and> user_isActive u = Some True) (users d)))"

definition getLead :: "bool \<Rightarrow> db \<Rightarrow> int \<Rightarrow> obj option result" where
  "getLead f d lid = (if f then Threw Store_failure else Ok (leads d lid))"

text \<open>\<^verbatim>\<open>updateLead\<close> turns an empty string into null for ten of the fields first.\<close>

definition sanitized_fields :: "string list" where
  "sanitized_fields = [''walkinDate'', ''walkinTime'', ''phone'', ''domain'', ''notes'',
     ''sessionDays'', ''timing'', ''yearOfPassing'', ''collegeName'', ''registrationAmount'']"

definition sanitize :: "obj \<Rightarrow> obj" where
  "sanitize updates =
     (\<lambda>k. if k \<in> set sanitized_fields \<and> updates k = Str [] then Null else updates k)"

definition updateLead :: "bool \<Rightarrow> nat \<Rightarrow> db \<Rightarrow> int \<Rightarrow> obj \<Rightarrow> obj option result \<times> db" where
  "updateLead f now d lid updates =
     (case update_leads f lid (\<lambda>row. True) ((sanitize updates)(''updatedAt'' := Date now)) d of
        (Threw e, d') \<Rightarrow> (Threw e, d')
      | (Ok rows, d') \<Rightarrow> (Ok (case rows of [] \<Rightarrow> None | lead # rest \<Rightarrow> Some lead), d'))"

definition createLeadHistory :: "bool \<Rightarrow> nat \<Rightarrow> db \<Rightarrow> insertLeadHistory \<Rightarrow> leadHistory_row result \<times> db" where
  "createLeadHistory f now d history = insert_leadHistory f now history d"

definition createNotification :: "bool \<Rightarrow> nat \<Rightarrow> db \<Rightarrow> insertNotification \<Rightarrow> notification result \<times> db" where
  "createNotification f now d notification = insert_notification f now notification d"

text \<open>
  \<^verbatim>\<open>assignLead\<close>, one transaction of three statements (0 the select, 1 the update,
  2 the insert). The conditional update is taken only when the select has already seen
  the lead unowned; every other call takes the unconditional update.
\<close>

definition assignLead_body :: "(nat \<Rightarrow> bool) \<Rightarrow> nat \<Rightarrow> int \<Rightarrow> string \<Rightarrow> string \<Rightarrow> val \<Rightarrow> db \<Rightarrow> obj option result \<times> db" where
  "assignLead_body f now lid toUser changedBy reason tx =
     (if f 0 then (Threw Store_failure, tx)
      else case leads tx lid of
        None \<Rightarrow> (Threw Lead_not_found, tx)
      | Some currentLead \<Rightarrow>
          (let previousOwnerId = currentLead ''currentOwnerId'';
               isHRSelfAssign = (toUser = changedBy \<and> previousOwnerId = Null);
               history = \<lparr>leadId = lid, fromUserId = previousOwnerId, toUserId = Str toUser,
                          previousStatus = currentLead ''status'',
                          newStatus = currentLead ''status'',
                          changeReason = or_else reason (Str ''Lead assigned''),
                          changeData = Assignment previousOwnerId toUser,
                          changedByUserId = changedBy\<rparr>;
               owner = empty_obj(''currentOwnerId'' := Str toUser, ''updatedAt'' := Date now)
           in if isHRSelfAssign
              then (case update_leads (f 1) lid (\<lambda>row. row ''currentOwnerId'' = Null) owner tx of
                      (Threw e, tx1) \<Rightarrow> (Threw e, tx1)
                    | (Ok rows, tx1) \<Rightarrow>
                        (case rows of
                           [] \<Rightarrow> (Threw Lead_already_assigned, tx1)
                         | updatedLead # rest \<Rightarrow>
                             (case insert_leadHistory (f 2) now history tx1 of
                                (Threw e, tx2) \<Rightarrow> (Threw e, tx2)
                              | (Ok h, tx2) \<Rightarrow> (Ok (Some updatedLead), tx2))))
              else (case update_leads (f 1) lid (\<lambda>row. True) owner tx of
                      (Threw e, tx1) \<Rightarrow> (Threw e, tx1)
                    | (Ok rows, tx1) \<Rightarrow>
                        (case insert_leadHistory (f 2) now history tx1 of
                           (Threw e, tx2) \<Rightarrow> (Threw e, tx2)
                         | (Ok h, tx2) \<Rightarrow>
                             (Ok (case rows of [] \<Rightarrow> None | updatedLead # rest \<Rightarrow> Some updatedLead),
                              tx2)))))"

definition assignLead :: "(nat \<Rightarrow> bool) \<Rightarrow> nat \<Rightarrow> db \<Rightarrow> int \<Rightarrow> string \<Rightarrow> string \<Rightarrow> val \<Rightarrow> obj option result \<times> db" where
  "assignLead f now d lid toUser changedBy reason =
     transaction (assignLead_body f now lid toUser changedBy reason) d"

text \<open>
  \<^verbatim>\<open>unassignLeadWithHistory\<close>, one transaction of two statements (0 the insert,
  1 the update), and \<^verbatim>\<open>deleteLeadWithHistory\<close>, one transaction of three (0 the insert
  of the final entry, 1 the delete of the lead's history, 2 the delete of the lead).
\<close>

definition unassignLeadWithHistory_body :: "(nat \<Rightarrow> bool) \<Rightarrow> nat \<Rightarrow> int \<Rightarrow> insertLeadHistory \<Rightarrow> db \<Rightarrow> obj option result \<times> db" where
  "unassignLeadWithHistory_body f now lid historyData tx =
     (case insert_leadHistory (f 0) now (historyData\<lparr>leadId := lid\<rparr>) tx of
        (Threw e, tx1) \<Rightarrow> (Threw e, tx1)
      | (Ok h, tx1) \<Rightarrow>
          (case update_leads (f 1) lid (\<lambda>row. True)
                  (empty_obj(''currentOwnerId'' := Null, ''status'' := Str ''new'',
                             ''updatedAt'' := Date now)) tx1 of
             (Threw e, tx2) \<Rightarrow> (Threw e, tx2)
           | (Ok rows, tx2) \<Rightarrow>
               (Ok (case rows of [] \<Rightarrow> None | unassignedLead # rest \<Rightarrow> Some unassignedLead),
                tx2)))"

definition unassignLeadWithHistory :: "(nat \<Rightarrow> bool) \<Rightarrow> nat \<Rightarrow> db \<Rightarrow> int \<Rightarrow> insertLeadHistory \<Rightarrow> obj option result \<times> db" where
  "unassignLeadWithHistory f now d lid historyData =
     transaction (unassignLeadWithHistory_body f now lid historyData) d"

definition deleteLeadWithHistory_body :: "(nat \<Rightarrow> bool) \<Rightarrow> nat \<Rightarrow> int \<Rightarrow> insertLeadHistory \<Rightarrow> db \<Rightarrow> unit result \<times> db" where
  "deleteLeadWithHistory_body f now lid historyData tx =
     (case insert_leadHistory (f 0) now (historyData\<lparr>leadId := lid\<rparr>) tx of
        (Threw e, tx1) \<Rightarrow> (Threw e, tx1)
      | (Ok h, tx1) \<Rightarrow>
          (case delete_leadHistory (f 1) lid tx1 of
             (Threw e, tx2) \<Rightarrow> (Threw e, tx2)
           | (Ok u, tx2) \<Rightarrow> delete_leads (f 2) lid tx2))"

definition deleteLeadWithHistory :: "(nat \<Rightarrow> bool) \<Rightarrow> nat \<Rightarrow> db \<Rightarrow> int \<Rightarrow> insertLeadHistory \<Rightarrow> unit result \<times> db" where
  "deleteLeadWithHistory f now d lid historyData =
     transaction (deleteLeadWithHistory_body f now lid historyData) d"

text \<open>
  \<^verbatim>\<open>getLeadHistory\<close> selects the lead's rows with \<^verbatim>\<open>ORDER BY changed_at DESC\<close> and no
  second key. SQL leaves the order of rows with equal keys open, so the query is
  modelled by the results it may return: any arrangement of the lead's rows in which
  the timestamps do not increase.
\<close>

definition getLeadHistory_returns :: "db \<Rightarrow> int \<Rightarrow> leadHistory_row list \<Rightarrow> bool" where
  "getLeadHistory_returns d lid rows =
     (mset rows = mset (filter (\<lambda>h. leadId h = lid) (leadHistory d))
      \<and> sorted_wrt (\<lambda>a b. changedAt b \<le> changedAt a) rows)"

section \<open>Routes (registerRoutes)\<close>

datatype payload =
    Message string
  | Invalid_request_body
  | Lead_json "obj option"
  | Success_lead "obj option"
  | Success_message string

datatype response = Response (status_code: nat) (payload: payload)

definition failed :: "string \<Rightarrow> response" where
  "failed m = Response 500 (Message m)"

text \<open>
  Request validation. An object schema of the validation library checks the keys it
  lists (every one of them optional here: an absent key passes) and drops every other
  key of the body from the parsed data; no schema of these routes is strict.
\<close>

type_synonym schema = "(string \<times> (val \<Rightarrow> bool)) list"

definition safeParse :: "schema \<Rightarrow> obj \<Rightarrow> obj option" where
  "safeParse schema body =
     (if list_all (\<lambda>(k, valid). body k = Undefined \<or> valid (body k)) schema
      then Some (\<lambda>k. case map_of schema k of None \<Rightarrow> Undefined | Some valid \<Rightarrow> body k)
      else None)"

definition z_string :: "val \<Rightarrow> bool" where
  "z_string v = (case v of Str s \<Rightarrow> True | _ \<Rightarrow> False)"

definition z_string_where :: "(string \<Rightarrow> bool) \<Rightarrow> val \<Rightarrow> bool" where
  "z_string_where p v = (case v of Str s \<Rightarrow> p s | _ \<Rightarrow> False)"

definition z_enum :: "string list \<Rightarrow> val \<Rightarrow> bool" where
  "z_enum options v = (case v of Str s \<Rightarrow> s \<in> set options | _ \<Rightarrow> False)"

text \<open>\<^verbatim>\<open>currentUser?.role || 'hr'\<close>: a caller without a row in \<^verbatim>\<open>users\<close> is
  taken for an hr user by the update and the delete routes.\<close>

definition role_or_hr :: "user option \<Rightarrow> role" where
  "role_or_hr currentUser = (case currentUser of None \<Rightarrow> HR | Some u \<Rightarrow> user_role u)"

subsection \<open>POST /api/leads/:id/assign\<close>

text \<open>
  The path parameter is given parsed, \<open>id_param\<close> being \<^verbatim>\<open>parseInt(id)\<close>, \<open>None\<close> standing for
  \<^verbatim>\<open>NaN\<close>. Call sites: 0 \<^verbatim>\<open>getUser(userId)\<close>, 1 \<^verbatim>\<open>getUser(targetUserId)\<close>,
  2 \<^verbatim>\<open>getLead\<close> (the check made for an hr user), 3 \<^verbatim>\<open>assignLead\<close>.

  The handler awaits each storage call, and another request may run between two
  awaits. \<open>assign_check\<close> is the handler up to the call of \<^verbatim>\<open>assignLead\<close>: it answers
  at once or passes the lead and the target on. \<open>assign_commit\<close> is the call of
  \<^verbatim>\<open>assignLead\<close> and the answer. \<open>assign_route\<close> is the handler run without
  interruption. The broadcast after the commit does not touch the database and is
  left out.
\<close>

definition assignLeadSchema :: schema where
  "assignLeadSchema =
     [(''toUserId'', z_string), (''reason'', z_string_where (\<lambda>s. length s \<le> 256))]"

definition assign_check :: "env \<Rightarrow> db \<Rightarrow> string \<Rightarrow> int option \<Rightarrow> obj \<Rightarrow> response + (int \<times> string \<times> val)" where
  "assign_check env d userId id_param body =
     (case getUser (fault env 0 0) d userId of
        Threw e \<Rightarrow> Inl (failed ''Failed to assign lead'')
      | Ok None \<Rightarrow> Inl (Response 403 (Message ''User not found''))
      | Ok (Some currentUser) \<Rightarrow>
          (let userRole = user_role currentUser in
           case id_param of
             None \<Rightarrow> Inl (Response 400 (Message ''Invalid lead ID''))
           | Some lid \<Rightarrow>
               if lid = 0 then Inl (Response 400 (Message ''Invalid lead ID''))
               else case safeParse assignLeadSchema body of
                 None \<Rightarrow> Inl (Response 400 Invalid_request_body)
               | Some data \<Rightarrow>
                   (let reason = data ''reason'';
                        targetUserId = (case or_else (data ''toUserId'') (Str userId) of
                                          Str t \<Rightarrow> t | _ \<Rightarrow> userId)
                    in case getUser (fault env 1 0) d targetUserId of
                         Threw e \<Rightarrow> Inl (failed ''Failed to assign lead'')
                       | Ok None \<Rightarrow> Inl (Response 400 (Message ''Target user not found''))
                       | Ok (Some targetUser) \<Rightarrow>
                           if userRole = HR then
                             (if targetUserId \<noteq> userId
                              then Inl (Response 403 (Message ''HR users can only assign leads to themselves''))
                              else case getLead (fault env 2 0) d lid of
                                     Threw e \<Rightarrow> Inl (failed ''Failed to assign lead'')
                                   | Ok None \<Rightarrow> Inl (Response 404 (Message ''Lead not found''))
                                   | Ok (Some existingLead) \<Rightarrow>
                                       if truthy (existingLead ''currentOwnerId'')
                                       then Inl (Response 409 (Message ''Lead is already assigned''))
                                       else Inr (lid, targetUserId, reason))
                           else if userRole = Manager \<or> userRole = Admin then
                             (if user_role targetUser \<noteq> HR \<and> targetUserId \<noteq> userId
                              then Inl (Response 400 (Message ''Can only assign leads to HR users''))
                              else Inr (lid, targetUserId, reason))
                           else Inl (Response 403 (Message ''Insufficient permissions'')))))"

definition assign_commit :: "env \<Rightarrow> db \<Rightarrow> string \<Rightarrow> int \<times> string \<times> val \<Rightarrow> response \<times> db" where
  "assign_commit env d userId job =
     (case job of (lid, targetUserId, reason) \<Rightarrow>
        (case assignLead (fault env 3) (clock env 3) d lid targetUserId userId reason of
           (Threw e, d') \<Rightarrow>
             (if e = Lead_not_found then (Response 404 (Message ''Lead not found''), d')
              else if e = Lead_already_assigned
              then (Response 409 (Message ''Lead is already assigned to another user''), d')
              else (failed ''Failed to assign lead'', d'))
         | (Ok updatedLead, d') \<Rightarrow> (Response 200 (Success_lead updatedLead), d')))"

definition assign_route :: "env \<Rightarrow> db \<Rightarrow> string \<Rightarrow> int option \<Rightarrow> obj \<Rightarrow> response \<times> db" where
  "assign_route env d userId id_param body =
     (case assign_check env d userId id_param body of
        Inl answer \<Rightarrow> (answer, d)
      | Inr job \<Rightarrow> assign_commit env d userId job)"

subsection \<open>PUT /api/leads/:id\<close>

definition status_values :: "string list" where
  "status_values = [''new'', ''scheduled'', ''completed'', ''not_interested'', ''pending'',
     ''ready_for_class'', ''not_available'', ''no_show'', ''reschedule'', ''pending_but_ready'']"

definition baseUpdateSchema :: schema where
  "baseUpdateSchema =
     [(''status'', z_enum status_values), (''notes'', z_string), (''changeReason'', z_string),
      (''yearOfPassing'', z_string), (''collegeName'', z_string),
      (''registrationAmount'', z_string), (''pendingAmount'', z_string)]"

definition managerUpdateSchema :: "env \<Rightarrow> schema" where
  "managerUpdateSchema env = baseUpdateSchema @
     [(''name'', z_string_where (\<lambda>s. 1 \<le> length s)),
      (''email'', z_string_where (email_ok env)),
      (''phone'', z_string), (''location'', z_string), (''degree'', z_string),
      (''domain'', z_string),
      (''sessionDays'', z_enum [''M,W,F'', ''T,T,S'', ''daily'', ''weekend'', ''custom'', []]),
      (''timing'', z_string), (''walkinDate'', z_string), (''walkinTime'', z_string)]"

text \<open>
  The two amounts arrive as strings; a defined one becomes null when empty, the parsed
  number printed back otherwise, and an answer 400 (here \<open>None\<close>) when it does not
  parse. After validation a defined amount is a string.
\<close>

definition parse_amount :: "env \<Rightarrow> val \<Rightarrow> val option" where
  "parse_amount env v =
     (if v = Undefined then Some Undefined
      else if v = Str [] \<or> v = Null then Some Null
      else case v of
        Str s \<Rightarrow> (case parseFloat env s of None \<Rightarrow> None | Some t \<Rightarrow> Some (Str t))
      | _ \<Rightarrow> None)"

text \<open>A value inside a template literal; \<^verbatim>\<open>name\<close> is a text column, a string or null.\<close>

definition template :: "val \<Rightarrow> string" where
  "template v = (case v of Str s \<Rightarrow> s | Null \<Rightarrow> ''null'' | _ \<Rightarrow> ''undefined'')"

text \<open>
  Call sites of the handler: 0 \<^verbatim>\<open>getUser\<close>, 1 \<^verbatim>\<open>getLead\<close>, 2 \<^verbatim>\<open>updateLead\<close> with the
  validated updates, 3 \<^verbatim>\<open>createLeadHistory\<close> for the status change,
  4 \<^verbatim>\<open>getUsersByRole\<close>, 5 \<^verbatim>\<open>updateLead\<close> of the hand-off, 6 \<^verbatim>\<open>createLeadHistory\<close> of
  the hand-off, 7 \<^verbatim>\<open>createNotification\<close>, 8 \<^verbatim>\<open>createLeadHistory\<close> for the other
  fields, 9 the final \<^verbatim>\<open>getLead\<close>. Each is a call of its own on the connection pool:
  the handler opens no transaction.

  \<open>forward_lead\<close> is the body shared by the two hand-off branches, which differ in the
  role looked up, the status written and the texts. \<open>lead\<close> is what the first
  \<^verbatim>\<open>updateLead\<close> returned; reading \<^verbatim>\<open>lead.name\<close> throws when it is undefined.
\<close>

definition forward_lead :: "env \<Rightarrow> db \<Rightarrow> string \<Rightarrow> int \<Rightarrow> obj \<Rightarrow> obj option \<Rightarrow> role \<Rightarrow> string \<Rightarrow> string \<Rightarrow> string \<Rightarrow> string \<Rightarrow> (string \<Rightarrow> string) \<Rightarrow> unit result \<times> db" where
  "forward_lead env d userId lid currentLead lead target status reason handoffType title message =
     (case getUsersByRole (fault env 4 0) d target of
        Threw e \<Rightarrow> (Threw e, d)
      | Ok [] \<Rightarrow> (Ok (), d)
      | Ok (assignedUser # others) \<Rightarrow>
          (case updateLead (fault env 5 0) (clock env 5) d lid
                  (empty_obj(''currentOwnerId'' := Str (user_id assignedUser),
                             ''status'' := Str status, ''isActive'' := Bool True)) of
             (Threw e, d1) \<Rightarrow> (Threw e, d1)
           | (Ok l1, d1) \<Rightarrow>
               (case createLeadHistory (fault env 6 0) (clock env 6) d1
                       \<lparr>leadId = lid, fromUserId = currentLead ''currentOwnerId'',
                        toUserId = Str (user_id assignedUser),
                        previousStatus = Str ''completed'', newStatus = Str status,
                        changeReason = Str reason,
                        changeData = Handoff handoffType (currentLead ''currentOwnerId'')
                                       (user_id assignedUser),
                        changedByUserId = userId\<rparr> of
                  (Threw e, d2) \<Rightarrow> (Threw e, d2)
                | (Ok h, d2) \<Rightarrow>
                    (case lead of
                       None \<Rightarrow> (Threw TypeError, d2)
                     | Some l \<Rightarrow>
                         (case createNotification (fault env 7 0) (clock env 7) d2
                                 \<lparr>n_userId = user_id assignedUser, n_title = title,
                                  n_message = message (template (l ''name'')),
                                  n_type = ''lead_assignment'', n_relatedLeadId = lid\<rparr> of
                            (Threw e, d3) \<Rightarrow> (Threw e, d3)
                          | (Ok n, d3) \<Rightarrow> (Ok (), d3))))))"

definition update_handoff :: "env \<Rightarrow> db \<Rightarrow> string \<Rightarrow> role \<Rightarrow> int \<Rightarrow> obj \<Rightarrow> obj option \<Rightarrow> unit result \<times> db" where
  "update_handoff env d userId userRole lid currentLead lead =
     (if userRole = HR then
        forward_lead env d userId lid currentLead lead Accounts ''pending''
          ''Lead completed by HR and forwarded to Accounts team'' ''HR_to_Accounts''
          ''New Lead Assigned'' (\<lambda>name. ''Lead '' @ name @ '' has been forwarded from HR'')
      else if userRole = Accounts then
        forward_lead env d userId lid currentLead lead Admin ''completed''
          ''Lead completed by Accounts and forwarded to Admin'' ''Accounts_to_Admin''
          ''Completed Lead Assigned''
          (\<lambda>name. ''Lead '' @ name @ '' has been completed by Accounts and assigned to you'')
      else (Ok (), d))"

definition nonStatusFields :: "string list" where
  "nonStatusFields = [''name'', ''email'', ''phone'', ''location'', ''degree'', ''domain'',
     ''sessionDays'', ''timing'', ''walkinDate'', ''walkinTime'', ''notes'']"

definition changedFields :: "obj \<Rightarrow> obj \<Rightarrow> (string \<times> val \<times> val) list" where
  "changedFields currentLead updates =
     map (\<lambda>field. (field, currentLead field, updates field))
       (filter (\<lambda>field. updates field \<noteq> Undefined \<and> updates field \<noteq> currentLead field)
          nonStatusFields)"

text \<open>The history written after the first \<^verbatim>\<open>updateLead\<close>: the \<^verbatim>\<open>if\<close> on the status
  and its \<^verbatim>\<open>else\<close>.\<close>

definition update_history :: "env \<Rightarrow> db \<Rightarrow> string \<Rightarrow> role \<Rightarrow> int \<Rightarrow> obj \<Rightarrow> obj option \<Rightarrow> obj \<Rightarrow> unit result \<times> db" where
  "update_history env d userId userRole lid currentLead lead updates =
     (if truthy (updates ''status'') \<and> updates ''status'' \<noteq> currentLead ''status'' then
        (case createLeadHistory (fault env 3 0) (clock env 3) d
                \<lparr>leadId = lid, fromUserId = currentLead ''currentOwnerId'',
                 toUserId = currentLead ''currentOwnerId'',
                 previousStatus = currentLead ''status'', newStatus = updates ''status'',
                 changeReason = or_else (updates ''changeReason'') (Str ''Status updated''),
                 changeData = StatusUpdate updates, changedByUserId = userId\<rparr> of
           (Threw e, d1) \<Rightarrow> (Threw e, d1)
         | (Ok h, d1) \<Rightarrow>
             if updates ''status'' = Str ''completed''
             then update_handoff env d1 userId userRole lid currentLead lead
             else (Ok (), d1))
      else if changedFields currentLead updates \<noteq> [] then
        (case createLeadHistory (fault env 8 0) (clock env 8) d
                \<lparr>leadId = lid, fromUserId = currentLead ''currentOwnerId'',
                 toUserId = currentLead ''currentOwnerId'',
                 previousStatus = currentLead ''status'', newStatus = currentLead ''status'',
                 changeReason = or_else (updates ''changeReason'') (Str ''Lead information updated''),
                 changeData = FieldChanges (changedFields currentLead updates) updates,
                 changedByUserId = userId\<rparr> of
           (Threw e, d1) \<Rightarrow> (Threw e, d1)
         | (Ok h, d1) \<Rightarrow> (Ok (), d1))
      else (Ok (), d))"

text \<open>Validation of the body for the caller's role, then the parsing of the amounts:
  an answer, or the updates.\<close>

definition update_validate :: "env \<Rightarrow> role \<Rightarrow> obj \<Rightarrow> response + obj" where
  "update_validate env userRole body =
     (case safeParse (if userRole = Manager \<or> userRole = Admin
                      then managerUpdateSchema env else baseUpdateSchema) body of
        None \<Rightarrow> Inl (Response 400 Invalid_request_body)
      | Some data \<Rightarrow>
          (case parse_amount env (data ''registrationAmount'') of
             None \<Rightarrow> Inl (Response 400 (Message ''Invalid registration amount format''))
           | Some registrationAmount \<Rightarrow>
               (case parse_amount env (data ''pendingAmount'') of
                  None \<Rightarrow> Inl (Response 400 (Message ''Invalid pending amount format''))
                | Some pendingAmount \<Rightarrow>
                    Inr (data(''registrationAmount'' := registrationAmount,
                              ''pendingAmount'' := pendingAmount)))))"

definition update_route :: "env \<Rightarrow> db \<Rightarrow> string \<Rightarrow> int option \<Rightarrow> obj \<Rightarrow> response \<times> db" where
  "update_route env d userId id_param body =
     (case getUser (fault env 0 0) d userId of
        Threw e \<Rightarrow> (failed ''Failed to update lead'', d)
      | Ok currentUser \<Rightarrow>
          (let userRole = role_or_hr currentUser in
           case update_validate env userRole body of
             Inl answer \<Rightarrow> (answer, d)
           | Inr updates \<Rightarrow>
               (case id_param of
                  None \<Rightarrow> (Response 400 (Message ''Invalid lead ID''), d)
                | Some lid \<Rightarrow>
                    (case getLead (fault env 1 0) d lid of
                       Threw e \<Rightarrow> (failed ''Failed to update lead'', d)
                     | Ok None \<Rightarrow> (Response 404 (Message ''Lead not found''), d)
                     | Ok (Some currentLead) \<Rightarrow>
                         if userRole = Accounts \<and> currentLead ''currentOwnerId'' \<noteq> Str userId
                         then (Response 403 (Message ''Access denied: You can only edit leads assigned to you''), d)
                         else if userRole = HR \<and> currentLead ''currentOwnerId'' \<noteq> Str userId
                         then (Response 403 (Message ''Access denied: You can only edit your own assigned leads''), d)
                         else
                           (case updateLead (fault env 2 0) (clock env 2) d lid updates of
                              (Threw e, d1) \<Rightarrow> (failed ''Failed to update lead'', d1)
                            | (Ok lead, d1) \<Rightarrow>
                                (case update_history env d1 userId userRole lid currentLead lead updates of
                                   (Threw e, d2) \<Rightarrow> (failed ''Failed to update lead'', d2)
                                 | (Ok u, d2) \<Rightarrow>
                                     (case getLead (fault env 9 0) d2 lid of
                                        Threw e \<Rightarrow> (failed ''Failed to update lead'', d2)
                                      | Ok finalLead \<Rightarrow>
                                          (Response 200 (Lead_json finalLead), d2))))))))"

subsection \<open>DELETE /api/leads/:id\<close>

text \<open>
  Call sites: 0 \<^verbatim>\<open>getUser\<close>, 1 \<^verbatim>\<open>getLead\<close>, 2 \<^verbatim>\<open>unassignLeadWithHistory\<close> (an hr
  user gives the lead back), 3 \<^verbatim>\<open>deleteLeadWithHistory\<close> (a manager or an admin deletes
  it). The route builds the history data without the lead's id, which the storage
  method adds.
\<close>

definition delete_route :: "env \<Rightarrow> db \<Rightarrow> string \<Rightarrow> int option \<Rightarrow> response \<times> db" where
  "delete_route env d userId id_param =
     (case getUser (fault env 0 0) d userId of
        Threw e \<Rightarrow> (failed ''Failed to delete lead'', d)
      | Ok currentUser \<Rightarrow>
          (let userRole = role_or_hr currentUser in
           case id_param of
             None \<Rightarrow> (Response 400 (Message ''Invalid lead ID''), d)
           | Some lid \<Rightarrow>
               (case getLead (fault env 1 0) d lid of
                  Threw e \<Rightarrow> (failed ''Failed to delete lead'', d)
                | Ok None \<Rightarrow> (Response 404 (Message ''Lead not found''), d)
                | Ok (Some currentLead) \<Rightarrow>
                    if userRole = HR \<and> currentLead ''currentOwnerId'' \<noteq> Str userId
                    then (Response 403 (Message ''Access denied: You can only delete your own leads''), d)
                    else if userRole = Accounts
                    then (Response 403 (Message ''Access denied: Accounts users cannot delete leads''), d)
                    else if userRole = HR \<and> currentLead ''currentOwnerId'' = Str userId
                    then
                      (case unassignLeadWithHistory (fault env 2) (clock env 2) d lid
                              \<lparr>leadId = lid, fromUserId = currentLead ''currentOwnerId'',
                               toUserId = Null, previousStatus = currentLead ''status'',
                               newStatus = Str ''new'',
                               changeReason = Str ''Lead released by HR - returned to Lead Management'',
                               changeData = Unassigned (currentLead ''currentOwnerId'') userId
                                              (clock env 2),
                               changedByUserId = userId\<rparr> of
                         (Threw e, d1) \<Rightarrow> (failed ''Failed to delete lead'', d1)
                       | (Ok l, d1) \<Rightarrow>
                           (Response 200 (Success_message ''Lead returned to Lead Management for reassignment''), d1))
                    else
                      (case deleteLeadWithHistory (fault env 3) (clock env 3) d lid
                              \<lparr>leadId = lid, fromUserId = currentLead ''currentOwnerId'',
                               toUserId = Null, previousStatus = currentLead ''status'',
                               newStatus = currentLead ''status'',
                               changeReason = Str ''Lead deleted'',
                               changeData = Deleted currentLead userId (clock env 3),
                               changedByUserId = userId\<rparr> of
                         (Threw e, d1) \<Rightarrow> (failed ''Failed to delete lead'', d1)
                       | (Ok u, d1) \<Rightarrow>
                           (Response 200 (Success_message ''Lead deleted successfully''), d1)))))"

section \<open>A worked database\<close>

text \<open>
  Two hr users, an inactive and an active accounts user and a manager; lead 1 is new
  and unowned, lead 5 is owned by the first hr user and scheduled. No statement fails
  in \<open>env0\<close>, whose clock reads 100 plus the number of the call site.
\<close>

definition env0 :: env where
  "env0 = \<lparr>clock = (\<lambda>s. 100 + s), fault = (\<lambda>s k. False), email_ok = (\<lambda>s. True),
           parseFloat = (\<lambda>s. Some s)\<rparr>"

definition hr1 :: user where
  "hr1 = \<lparr>user_id = ''hr1'', user_role = HR, user_isActive = Some True\<rparr>"

definition hr2 :: user where
  "hr2 = \<lparr>user_id = ''hr2'', user_role = HR, user_isActive = Some True\<rparr>"

definition acc0 :: user where
  "acc0 = \<lparr>user_id = ''acc0'', user_role = Accounts, user_isActive = Some False\<rparr>"

definition acc1 :: user where
  "acc1 = \<lparr>user_id = ''acc1'', user_role = Accounts, user_isActive = Some True\<rparr>"

definition mgr1 :: user where
  "mgr1 = \<lparr>user_id = ''mgr1'', user_role = Manager, user_isActive = Some True\<rparr>"

definition staff :: "user list" where
  "staff = [hr1, hr2, acc0, acc1, mgr1]"

definition lead1 :: obj where
  "lead1 = (\<lambda>c. if c \<in> set lead_columns then Null else Undefined)
     (''name'' := Str ''Asha'', ''status'' := Str ''new'', ''isActive'' := Bool True)"

definition lead5 :: obj where
  "lead5 = lead1(''name'' := Str ''Ravi'', ''currentOwnerId'' := Str ''hr1'',
                 ''status'' := Str ''scheduled'', ''collegeName'' := Str ''Old College'')"

definition db0 :: db where
  "db0 = \<lparr>users = staff, leads = [1 \<mapsto> lead1, 5 \<mapsto> lead5], leadHistory = [],
          notifications = [], leadHistory_seq = 0, notifications_seq = 0\<rparr>"

text \<open>The same database after the first hr user has claimed lead 1.\<close>

definition db_hr1 :: db where
  "db_hr1 = snd (assign_route env0 db0 ''hr1'' (Some 1) empty_obj)"

text \<open>The same database without the active accounts user.\<close>

definition db_short :: db where
  "db_short = db0\<lparr>users := [hr1, hr2, acc0, mgr1]\<rparr>"

text \<open>The same database after lead 5 was claimed at time 50, with the entry of the claim.\<close>

definition claim5 :: leadHistory_row where
  "claim5 = \<lparr>leadId = 5, fromUserId = Null, toUserId = Str ''hr1'',
             previousStatus = Str ''new'', newStatus = Str ''new'',
             changeReason = Str ''Lead assigned'', changeData = Assignment Null ''hr1'',
             changedByUserId = ''hr1'', history_id = 1, changedAt = 50\<rparr>"

definition db_claimed :: db where
  "db_claimed = db0\<lparr>leadHistory := [claim5], leadHistory_seq := 1\<rparr>"

text \<open>An environment in which the insert of the hand-off entry (call site 6 of the
  update route) is rejected by the store.\<close>

definition env_fail6 :: env where
  "env_fail6 = env0\<lparr>fault := (\<lambda>s k. s = 6)\<rparr>"

text \<open>Request bodies.\<close>

definition body_done :: obj where
  "body_done = empty_obj(''status'' := Str ''completed'', ''changeReason'' := Str ''done'')"

definition body_college :: obj where
  "body_college = empty_obj(''collegeName'' := Str ''New College'')"

definition body_name :: obj where
  "body_name = empty_obj(''name'' := Str ''Mallory'')"

text \<open>Two entries for lead 1, written one after the other: at the same clock reading
  in \<open>db_tie\<close>, at successive readings in \<open>db_seq\<close>.\<close>

definition note_a :: insertLeadHistory where
  "note_a = \<lparr>leadId = 1, fromUserId = Null, toUserId = Null, previousStatus = Str ''new'',
             newStatus = Str ''scheduled'', changeReason = Str ''Status updated'',
             changeData = StatusUpdate (empty_obj(''status'' := Str ''scheduled'')),
             changedByUserId = ''mgr1''\<rparr>"

definition note_b :: insertLeadHistory where
  "note_b = \<lparr>leadId = 1, fromUserId = Null, toUserId = Null,
             previousStatus = Str ''scheduled'', newStatus = Str ''no_show'',
             changeReason = Str ''Status updated'',
             changeData = StatusUpdate (empty_obj(''status'' := Str ''no_show'')),
             changedByUserId = ''mgr1''\<rparr>"

definition db_tie :: db where
  "db_tie = snd (createLeadHistory False 7 (snd (createLeadHistory False 7 db0 note_a)) note_b)"

definition db_seq :: db where
  "db_seq = snd (createLeadHistory False 8 (snd (createLeadHistory False 7 db0 note_a)) note_b)"

definition owner_of :: "db \<Rightarrow> int \<Rightarrow> val" where
  "owner_of d lid = (case leads d lid of None \<Rightarrow> Undefined | Some lead \<Rightarrow> lead ''currentOwnerId'')"

definition status_of :: "db \<Rightarrow> int \<Rightarrow> val" where
  "status_of d lid = (case leads d lid of None \<Rightarrow> Undefined | Some lead \<Rightarrow> lead ''status'')"

definition column_of :: "db \<Rightarrow> int \<Rightarrow> string \<Rightarrow> val" where
  "column_of d lid c = (case leads d lid of None \<Rightarrow> Undefined | Some lead \<Rightarrow> lead c)"

section \<open>Facts about the storage methods and the worked database\<close>

lemma empty_obj_at: "empty_obj k = Undefined"
  by (simp add: empty_obj_def)

lemma set_columns_owner_status:
  "set_columns v row ''currentOwnerId'' =
     (if v ''currentOwnerId'' = Undefined then row ''currentOwnerId'' else v ''currentOwnerId'')"
  "set_columns v row ''status'' =
     (if v ''status'' = Undefined then row ''status'' else v ''status'')"
  by (simp_all add: set_columns_def lead_columns_def)

lemma sanitize_owner_status:
  "sanitize u ''currentOwnerId'' = u ''currentOwnerId''"
  "sanitize u ''status'' = u ''status''"
  by (simp_all add: sanitize_def sanitized_fields_def)

lemma env0_fields: "fault env0 s k = False" "clock env0 s = 100 + s"
  by (simp_all add: env0_def)

lemma set_columns_at:
  "c \<in> set lead_columns \<Longrightarrow> set_columns v row c = (if v c = Undefined then row c else v c)"
  by (simp add: set_columns_def)

lemma lead1_columns:
  "lead1 ''currentOwnerId'' = Null" "lead1 ''status'' = Str ''new''" "lead1 ''name'' = Str ''Asha''"
  by (simp_all add: lead1_def lead_columns_def)

lemma lead5_columns:
  "lead5 ''currentOwnerId'' = Str ''hr1''" "lead5 ''status'' = Str ''scheduled''"
  "lead5 ''name'' = Str ''Ravi''" "lead5 ''collegeName'' = Str ''Old College''"
  by (simp_all add: lead5_def lead1_def lead_columns_def)

lemmas users_defs = staff_def hr1_def hr2_def acc0_def acc1_def mgr1_def

lemmas eval_defs = getUser_def getLead_def getUsersByRole_def updateLead_def
  createLeadHistory_def createNotification_def assignLead_def assignLead_body_def
  transaction_def update_leads_def insert_leadHistory_def insert_notification_def
  delete_leadHistory_def delete_leads_def unassignLeadWithHistory_def
  unassignLeadWithHistory_body_def deleteLeadWithHistory_def deleteLeadWithHistory_body_def
  set_columns_owner_status sanitize_owner_status empty_obj_at
  truthy_def or_else_def Let_def env0_fields db0_def users_defs lead1_columns lead5_columns
  owner_of_def status_of_def column_of_def

lemma updateLead_row:
  "leads d lid = Some row \<Longrightarrow>
   updateLead False now d lid upd =
     (Ok (Some (set_columns ((sanitize upd)(''updatedAt'' := Date now)) row)),
      d\<lparr>leads := (leads d)(lid \<mapsto> set_columns ((sanitize upd)(''updatedAt'' := Date now)) row)\<rparr>)"
  by (simp add: updateLead_def update_leads_def Let_def)

lemma createLeadHistory_row:
  "createLeadHistory False now d v =
     (Ok \<lparr>leadId = leadId v, fromUserId = fromUserId v, toUserId = toUserId v,
           previousStatus = previousStatus v, newStatus = newStatus v,
           changeReason = changeReason v, changeData = changeData v,
           changedByUserId = changedByUserId v,
           history_id = Suc (leadHistory_seq d), changedAt = now\<rparr>,
      d\<lparr>leadHistory := leadHistory d @
           [\<lparr>leadId = leadId v, fromUserId = fromUserId v, toUserId = toUserId v,
             previousStatus = previousStatus v, newStatus = newStatus v,
             changeReason = changeReason v, changeData = changeData v,
             changedByUserId = changedByUserId v,
             history_id = Suc (leadHistory_seq d), changedAt = now\<rparr>],
         leadHistory_seq := Suc (leadHistory_seq d)\<rparr>)"
  by (simp add: createLeadHistory_def insert_leadHistory_def Let_def)

lemma createNotification_row:
  "createNotification False now d v =
     (Ok \<lparr>n_userId = n_userId v, n_title = n_title v, n_message = n_message v,
           n_type = n_type v, n_relatedLeadId = n_relatedLeadId v,
           notification_id = Suc (notifications_seq d), n_isRead = False, n_createdAt = now\<rparr>,
      d\<lparr>notifications := notifications d @
           [\<lparr>n_userId = n_userId v, n_title = n_title v, n_message = n_message v,
             n_type = n_type v, n_relatedLeadId = n_relatedLeadId v,
             notification_id = Suc (notifications_seq d), n_isRead = False, n_createdAt = now\<rparr>],
         notifications_seq := Suc (notifications_seq d)\<rparr>)"
  by (simp add: createNotification_def insert_notification_def Let_def)

lemma safeParse_data:
  "safeParse schema body = Some data \<Longrightarrow>
   data = (\<lambda>k. case map_of schema k of None \<Rightarrow> Undefined | Some valid \<Rightarrow> body k)"
  by (simp add: safeParse_def split: if_splits)

lemma update_validate_owner:
  "update_validate env r body = Inr updates \<Longrightarrow> updates ''currentOwnerId'' = Undefined"
  by (auto simp: update_validate_def baseUpdateSchema_def managerUpdateSchema_def
      dest!: safeParse_data split: option.splits if_splits)

lemma safeParse_other_key:
  assumes "k \<notin> set (map fst schema)"
  shows "safeParse schema (body(k := v)) = safeParse schema body"
proof -
  have a: "list_all (\<lambda>(k', valid). (body(k := v)) k' = Undefined \<or> valid ((body(k := v)) k')) schema
      = list_all (\<lambda>(k', valid). body k' = Undefined \<or> valid (body k')) schema"
    using assms by (induction schema) auto
  have b: "(\<lambda>k'. case map_of schema k' of None \<Rightarrow> Undefined | Some valid \<Rightarrow> (body(k := v)) k')
      = (\<lambda>k'. case map_of schema k' of None \<Rightarrow> Undefined | Some valid \<Rightarrow> body k')"
  proof
    fix k'
    show "(case map_of schema k' of None \<Rightarrow> Undefined | Some valid \<Rightarrow> (body(k := v)) k')
      = (case map_of schema k' of None \<Rightarrow> Undefined | Some valid \<Rightarrow> body k')"
    proof (cases "k' = k")
      case True
      with assms have "map_of schema k' = None" by (simp add: map_of_eq_None_iff)
      then show ?thesis by simp
    next
      case False
      then show ?thesis by (simp split: option.splits)
    qed
  qed
  show ?thesis unfolding safeParse_def a b ..
qed

lemma parse_empty: "safeParse assignLeadSchema empty_obj = Some empty_obj"
  by (auto simp: safeParse_def assignLeadSchema_def empty_obj_def fun_eq_iff)

lemma parse_done: "safeParse baseUpdateSchema body_done = Some body_done"
proof -
  have "list_all (\<lambda>(k, valid). body_done k = Undefined \<or> valid (body_done k)) baseUpdateSchema"
    by (simp add: baseUpdateSchema_def body_done_def empty_obj_def z_enum_def z_string_def
        status_values_def)
  moreover have "(\<lambda>k. case map_of baseUpdateSchema k of None \<Rightarrow> Undefined | Some valid \<Rightarrow> body_done k) = body_done"
    by (rule ext) (simp add: baseUpdateSchema_def body_done_def empty_obj_def)
  ultimately show ?thesis by (simp add: safeParse_def)
qed

lemma validate_done: "update_validate env0 HR body_done = Inr body_done"
proof -
  have "body_done ''registrationAmount'' = Undefined" "body_done ''pendingAmount'' = Undefined"
    by (simp_all add: body_done_def empty_obj_def)
  then show ?thesis
    by (simp add: update_validate_def parse_done parse_amount_def fun_upd_idem)
qed

lemma newest_first_unique:
  fixes key :: "'a \<Rightarrow> nat"
  assumes same: "mset rows = mset xs"
    and desc: "sorted_wrt (\<lambda>a b. key b \<le> key a) rows"
    and incr: "sorted_wrt (\<lambda>a b. key a < key b) xs"
  shows "rows = rev xs"
proof -
  have strict: "sorted_wrt (<) (map key xs)"
    using incr by (simp add: sorted_wrt_map)
  then have up: "sorted (map key xs)" and dist: "distinct (map key xs)"
    by (simp_all add: strict_sorted_iff)
  have "sorted_wrt (\<lambda>a b. key a \<le> key b) (rev rows)"
    using desc by (simp add: sorted_wrt_rev)
  then have "sorted (map key (rev rows))"
    by (simp add: sorted_wrt_map)
  moreover have "mset (map key (rev rows)) = mset (map key xs)"
    using same by simp
  ultimately have "sort (map key xs) = map key (rev rows)"
    by (rule properties_for_sort [rotated])
  with up have keys: "map key (rev rows) = map key xs"
    by (simp add: sorted_sort_id)
  have "set (rev rows) = set xs"
    using same by (metis set_rev set_mset_mset)
  moreover have "inj_on key (set xs)"
    using dist by (simp add: distinct_map)
  ultimately have "inj_on key (set (rev rows) \<union> set xs)" by simp
  with keys have "rev rows = xs"
    by (simp add: inj_on_map_eq_map)
  then show ?thesis by (metis rev_rev_ident)
qed

lemma validate_college: "update_validate env0 HR body_college = Inr body_college"
proof -
  have "list_all (\<lambda>(k, valid). body_college k = Undefined \<or> valid (body_college k))
          baseUpdateSchema"
    by (simp add: baseUpdateSchema_def body_college_def empty_obj_def z_string_def)
  moreover have "(\<lambda>k. case map_of baseUpdateSchema k of None \<Rightarrow> Undefined
                    | Some valid \<Rightarrow> body_college k) = body_college"
    by (rule ext) (simp add: baseUpdateSchema_def body_college_def empty_obj_def)
  ultimately have "safeParse baseUpdateSchema body_college = Some body_college"
    by (simp add: safeParse_def)
  moreover have "body_college ''registrationAmount'' = Undefined"
    "body_college ''pendingAmount'' = Undefined"
    by (simp_all add: body_college_def empty_obj_def)
  ultimately show ?thesis
    by (simp add: update_validate_def parse_amount_def fun_upd_idem)
qed

lemma validate_empty: "update_validate env HR empty_obj = Inr empty_obj"
proof -
  have "list_all (\<lambda>(k, valid). empty_obj k = Undefined \<or> valid (empty_obj k)) baseUpdateSchema"
    by (simp add: baseUpdateSchema_def empty_obj_def)
  moreover have "(\<lambda>k. case map_of baseUpdateSchema k of None \<Rightarrow> Undefined
                    | Some valid \<Rightarrow> empty_obj k) = empty_obj"
    by (rule ext) (simp add: empty_obj_def split: option.splits)
  ultimately have "safeParse baseUpdateSchema empty_obj = Some empty_obj"
    by (simp add: safeParse_def)
  then show ?thesis
    by (simp add: update_validate_def parse_amount_def empty_obj_at fun_upd_idem)
qed

lemma name_not_base: "''name'' \<notin> set (map fst baseUpdateSchema)"
  by (simp add: baseUpdateSchema_def)

lemma validate_name: "update_validate env HR body_name = Inr empty_obj"
  using safeParse_other_key [OF name_not_base, of empty_obj "Str ''Mallory''"] validate_empty [of env]
  by (simp add: update_validate_def body_name_def)

lemma validate_done_any: "update_validate env_fail6 HR body_done = Inr body_done"
proof -
  have "body_done ''registrationAmount'' = Undefined" "body_done ''pendingAmount'' = Undefined"
    by (simp_all add: body_done_def empty_obj_def)
  then show ?thesis
    by (simp add: update_validate_def parse_done parse_amount_def fun_upd_idem)
qed

lemma env_fail6_fields: "fault env_fail6 s k = (s = 6)" "clock env_fail6 s = 100 + s"
  by (simp_all add: env_fail6_def env0_def)

lemma db_tie_history:
  "leadHistory db_tie =
     [\<lparr>leadId = 1, fromUserId = Null, toUserId = Null, previousStatus = Str ''new'',
       newStatus = Str ''scheduled'', changeReason = Str ''Status updated'',
       changeData = StatusUpdate (empty_obj(''status'' := Str ''scheduled'')),
       changedByUserId = ''mgr1'', history_id = 1, changedAt = 7\<rparr>,
      \<lparr>leadId = 1, fromUserId = Null, toUserId = Null, previousStatus = Str ''scheduled'',
       newStatus = Str ''no_show'', changeReason = Str ''Status updated'',
       changeData = StatusUpdate (empty_obj(''status'' := Str ''no_show'')),
       changedByUserId = ''mgr1'', history_id = 2, changedAt = 7\<rparr>]"
  by (simp add: db_tie_def createLeadHistory_row note_a_def note_b_def db0_def)

lemma db_seq_history:
  "leadHistory db_seq =
     [\<lparr>leadId = 1, fromUserId = Null, toUserId = Null, previousStatus = Str ''new'',
       newStatus = Str ''scheduled'', changeReason = Str ''Status updated'',
       changeData = StatusUpdate (empty_obj(''status'' := Str ''scheduled'')),
       changedByUserId = ''mgr1'', history_id = 1, changedAt = 7\<rparr>,
      \<lparr>leadId = 1, fromUserId = Null, toUserId = Null, previousStatus = Str ''scheduled'',
       newStatus = Str ''no_show'', changeReason = Str ''Status updated'',
       changeData = StatusUpdate (empty_obj(''status'' := Str ''no_show'')),
       changedByUserId = ''mgr1'', history_id = 2, changedAt = 8\<rparr>]"
  by (simp add: db_seq_def createLeadHistory_row note_a_def note_b_def db0_def)

section \<open>The claims\<close>

subsection \<open>Claiming an unowned lead\<close>

text \<open>
  C1. The claim: of N concurrent claims of one unowned lead exactly one succeeds, the
  others get a conflict, and one assignment entry exists afterwards; the claim is one
  conditional write and never a read followed by a write.

  What the code does with two hr users claiming lead 1, each transaction run as an
  indivisible step: both requests pass the route's check while the lead is still
  unowned; the first commit takes the conditional update; the second transaction reads
  the lead again, finds an owner, therefore does not count as a self-assignment of an hr
  user and takes the unconditional update. Both requests are answered 200, the lead
  ends with the second user, and the history holds two assignment entries.
\<close>

theorem two_claims_both_succeed:
  "assign_check env0 db0 ''hr1'' (Some 1) empty_obj = Inr (1, ''hr1'', Undefined)
   \<and> assign_check env0 db0 ''hr2'' (Some 1) empty_obj = Inr (1, ''hr2'', Undefined)
   \<and> status_code (fst (assign_commit env0 db0 ''hr1'' (1, ''hr1'', Undefined))) = 200
   \<and> status_code (fst (assign_commit env0
         (snd (assign_commit env0 db0 ''hr1'' (1, ''hr1'', Undefined)))
         ''hr2'' (1, ''hr2'', Undefined))) = 200
   \<and> owner_of (snd (assign_commit env0
         (snd (assign_commit env0 db0 ''hr1'' (1, ''hr1'', Undefined)))
         ''hr2'' (1, ''hr2'', Undefined))) 1 = Str ''hr2''
   \<and> map changeData (leadHistory (snd (assign_commit env0
         (snd (assign_commit env0 db0 ''hr1'' (1, ''hr1'', Undefined)))
         ''hr2'' (1, ''hr2'', Undefined))))
       = [Assignment Null ''hr1'', Assignment (Str ''hr1'') ''hr2'']"
  by (simp add: assign_check_def assign_commit_def parse_empty eval_defs)

text \<open>
  The route's own check. When an hr user claims a lead for himself and the route's
  read of the lead shows an owner (a non-empty id), the request is answered 409 and
  the database is left exactly as it was.
\<close>

lemma hr_claim_of_owned_lead:
  assumes reads: "\<not> fault env 0 0" "\<not> fault env 1 0" "\<not> fault env 2 0"
    and caller: "getUser False d userId = Ok (Some currentUser)" "user_role currentUser = HR"
    and lid: "lid \<noteq> 0"
    and valid: "safeParse assignLeadSchema body = Some data"
    and self: "or_else (data ''toUserId'') (Str userId) = Str userId"
    and lead: "leads d lid = Some existingLead"
    and owned: "existingLead ''currentOwnerId'' = Str owner" "owner \<noteq> []"
  shows "assign_route env d userId (Some lid) body =
           (Response 409 (Message ''Lead is already assigned''), d)"
  using assms
  by (simp add: assign_route_def assign_check_def getLead_def truthy_def Let_def)

lemma hr_claim_of_owned_lead_example:
  "\<not> fault env0 0 0 \<and> \<not> fault env0 1 0 \<and> \<not> fault env0 2 0
   \<and> getUser False db0 ''hr2'' = Ok (Some hr2) \<and> user_role hr2 = HR
   \<and> safeParse assignLeadSchema empty_obj = Some empty_obj
   \<and> or_else (empty_obj ''toUserId'') (Str ''hr2'') = Str ''hr2''
   \<and> leads db0 5 = Some lead5 \<and> lead5 ''currentOwnerId'' = Str ''hr1''
   \<and> assign_route env0 db0 ''hr2'' (Some 5) empty_obj =
        (Response 409 (Message ''Lead is already assigned''), db0)"
proof -
  have f: "\<not> fault env0 0 0" "\<not> fault env0 1 0" "\<not> fault env0 2 0"
    by (simp_all add: env0_def)
  have u: "getUser False db0 ''hr2'' = Ok (Some hr2)" "user_role hr2 = HR"
    by (simp_all add: getUser_def db0_def users_defs)
  have s: "or_else (empty_obj ''toUserId'') (Str ''hr2'') = Str ''hr2''"
    by (simp add: or_else_def truthy_def empty_obj_def)
  have l: "leads db0 5 = Some lead5" by (simp add: db0_def)
  have n: "(5::int) \<noteq> 0" "''hr1'' \<noteq> []" by simp_all
  note c = hr_claim_of_owned_lead [OF f u n(1) parse_empty s l lead5_columns(1) n(2)]
  show ?thesis
    by (intro conjI f u parse_empty s l lead5_columns(1) c)
qed

text \<open>
  C2. The claim: every claim of a lead whose owner is already set fails with an owner
  conflict and writes no entry; owner, status and history stay as they were.

  The check above is all that answers a conflict: \<^verbatim>\<open>assignLead\<close> itself takes the
  conditional update only after it has read the lead unowned, so its own conflict is
  never thrown when the owner is set. The second hr user's request passes the route's
  check while lead 1 is unowned; the first hr user claims the lead; the second
  request then calls \<^verbatim>\<open>assignLead\<close> on a lead whose owner is set. It is answered 200,
  the owner is overwritten and a second assignment entry is written.
\<close>

theorem late_claim_overwrites_owner:
  "assign_check env0 db0 ''hr2'' (Some 1) empty_obj = Inr (1, ''hr2'', Undefined)
   \<and> owner_of db_hr1 1 = Str ''hr1''
   \<and> status_of db_hr1 1 = Str ''new''
   \<and> map changeData (leadHistory db_hr1) = [Assignment Null ''hr1'']
   \<and> status_code (fst (assign_commit env0 db_hr1 ''hr2'' (1, ''hr2'', Undefined))) = 200
   \<and> owner_of (snd (assign_commit env0 db_hr1 ''hr2'' (1, ''hr2'', Undefined))) 1 = Str ''hr2''
   \<and> map changeData (leadHistory (snd (assign_commit env0 db_hr1 ''hr2'' (1, ''hr2'', Undefined))))
       = [Assignment Null ''hr1'', Assignment (Str ''hr1'') ''hr2'']"
  by (simp add: db_hr1_def assign_route_def assign_check_def assign_commit_def parse_empty eval_defs)

subsection \<open>Status changes and hand-offs\<close>

text \<open>
  C3. When the hr owner of a lead changes its status to completed and the users table
  holds an active accounts user, the update is answered with the final lead, whose
  owner is the first active accounts user of the table (no user before it in the table
  is an active accounts user) and whose status is pending, and the history gains
  exactly two entries: the status change, with the owner on both sides, and then the
  hand-off from completed to pending, from the owner to the accounts user, marked
  \<^verbatim>\<open>HR_to_Accounts\<close>. No statement is rejected by the store.
\<close>

theorem hr_completion:
  assumes nofault: "fault env = (\<lambda>s k. False)"
    and caller: "getUser False d userId = Ok currentUser" "role_or_hr currentUser = HR"
    and valid: "update_validate env HR body = Inr updates"
    and completed: "updates ''status'' = Str ''completed''"
    and lead: "leads d lid = Some currentLead"
    and owner: "currentLead ''currentOwnerId'' = Str userId"
    and status: "currentLead ''status'' \<noteq> Str ''completed''"
    and staff: "users d = earlier @ assignedUser # later"
    and accounts: "user_role assignedUser = Accounts" "user_isActive assignedUser = Some True"
    and first: "list_all (\<lambda>u. \<not> (user_role u = Accounts \<and> user_isActive u = Some True)) earlier"
    and run: "update_route env d userId (Some lid) body = (answer, d')"
  shows "answer = Response 200 (Lead_json (leads d' lid))
    \<and> (\<exists>final. leads d' lid = Some final
          \<and> final ''currentOwnerId'' = Str (user_id assignedUser)
          \<and> final ''status'' = Str ''pending'')
    \<and> (\<exists>primary handoff.
          leadHistory d' = leadHistory d @ [primary, handoff]
          \<and> leadId primary = lid \<and> leadId handoff = lid
          \<and> fromUserId primary = Str userId \<and> toUserId primary = Str userId
          \<and> previousStatus primary = currentLead ''status''
          \<and> newStatus primary = Str ''completed''
          \<and> fromUserId handoff = Str userId
          \<and> toUserId handoff = Str (user_id assignedUser)
          \<and> previousStatus handoff = Str ''completed''
          \<and> newStatus handoff = Str ''pending''
          \<and> changeData handoff = Handoff ''HR_to_Accounts'' (Str userId) (user_id assignedUser))"
proof -
  have found: "filter (\<lambda>u. user_role u = Accounts \<and> user_isActive u = Some True) (users d)
       = assignedUser # filter (\<lambda>u. user_role u = Accounts \<and> user_isActive u = Some True) later"
    using accounts first by (simp add: staff list_all_iff filter_empty_conv)
  show ?thesis
    using run caller valid completed lead owner status found
    by (auto simp: update_route_def nofault getLead_def update_history_def update_handoff_def
        forward_lead_def updateLead_row createLeadHistory_row createNotification_row truthy_def
        empty_obj_def getUsersByRole_def set_columns_owner_status sanitize_owner_status)
qed

theorem hr_completion_witness:
  "fault env0 = (\<lambda>s k. False)
   \<and> getUser False db0 ''hr1'' = Ok (Some hr1) \<and> role_or_hr (Some hr1) = HR
   \<and> update_validate env0 HR body_done = Inr body_done
   \<and> body_done ''status'' = Str ''completed''
   \<and> leads db0 5 = Some lead5
   \<and> lead5 ''currentOwnerId'' = Str ''hr1''
   \<and> lead5 ''status'' \<noteq> Str ''completed''
   \<and> users db0 = [hr1, hr2, acc0] @ acc1 # [mgr1]
   \<and> user_role acc1 = Accounts \<and> user_isActive acc1 = Some True
   \<and> list_all (\<lambda>u. \<not> (user_role u = Accounts \<and> user_isActive u = Some True)) [hr1, hr2, acc0]
   \<and> owner_of (snd (update_route env0 db0 ''hr1'' (Some 5) body_done)) 5 = Str ''acc1''
   \<and> status_of (snd (update_route env0 db0 ''hr1'' (Some 5) body_done)) 5 = Str ''pending''
   \<and> map newStatus (leadHistory (snd (update_route env0 db0 ''hr1'' (Some 5) body_done)))
       = [Str ''completed'', Str ''pending'']"
proof -
  have h1: "fault env0 = (\<lambda>s k. False)" by (simp add: env0_def)
  have h2: "getUser False db0 ''hr1'' = Ok (Some hr1)"
    by (simp add: getUser_def db0_def users_defs)
  have h3: "role_or_hr (Some hr1) = HR" by (simp add: role_or_hr_def hr1_def)
  have h4: "body_done ''status'' = Str ''completed''" by (simp add: body_done_def)
  have h5: "leads db0 5 = Some lead5" by (simp add: db0_def)
  have h7: "lead5 ''status'' \<noteq> Str ''completed''" by (simp add: lead5_columns)
  have s1: "users db0 = [hr1, hr2, acc0] @ acc1 # [mgr1]"
    by (simp add: db0_def staff_def)
  have s2: "user_role acc1 = Accounts" "user_isActive acc1 = Some True"
    by (simp_all add: acc1_def)
  have s3: "list_all (\<lambda>u. \<not> (user_role u = Accounts \<and> user_isActive u = Some True)) [hr1, hr2, acc0]"
    by (simp add: hr1_def hr2_def acc0_def)
  have h9: "update_route env0 db0 ''hr1'' (Some 5) body_done =
     (fst (update_route env0 db0 ''hr1'' (Some 5) body_done),
      snd (update_route env0 db0 ''hr1'' (Some 5) body_done))"
    by simp
  note c = hr_completion [OF h1 h2 h3 validate_done h4 h5 lead5_columns(1) h7 s1 s2 s3 h9]
  have o: "owner_of (snd (update_route env0 db0 ''hr1'' (Some 5) body_done)) 5 = Str ''acc1''"
    using c by (auto simp: owner_of_def acc1_def)
  have t: "status_of (snd (update_route env0 db0 ''hr1'' (Some 5) body_done)) 5 = Str ''pending''"
    using c by (auto simp: status_of_def)
  have n: "map newStatus (leadHistory (snd (update_route env0 db0 ''hr1'' (Some 5) body_done)))
       = [Str ''completed'', Str ''pending'']"
    using c by (auto simp: db0_def)
  show ?thesis
    by (intro conjI h1 h2 h3 validate_done h4 h5 lead5_columns(1) h7 s1 s2 s3 o t n)
qed

text \<open>
  C4. The claim: when an update changes the status and a hand-off fires, the two history
  entries and the writes to the lead are one atomic transaction, all visible afterwards
  or none.

  The route opens no transaction: the four writes are four calls of their own, while
  \<^verbatim>\<open>assignLead\<close>, \<^verbatim>\<open>unassignLeadWithHistory\<close> and \<^verbatim>\<open>deleteLeadWithHistory\<close> each
  wrap theirs in \<^verbatim>\<open>db.transaction\<close>. When the store rejects the insert of the hand-off
  entry, the request is answered 500 and the lead stays handed over to the accounts
  user with status pending, with the status-change entry and without the hand-off entry.
\<close>

theorem failed_handoff_is_half_written:
  "fault env_fail6 6 0
   \<and> owner_of db0 5 = Str ''hr1'' \<and> status_of db0 5 = Str ''scheduled''
   \<and> leadHistory db0 = []
   \<and> status_code (fst (update_route env_fail6 db0 ''hr1'' (Some 5) body_done)) = 500
   \<and> owner_of (snd (update_route env_fail6 db0 ''hr1'' (Some 5) body_done)) 5 = Str ''acc1''
   \<and> status_of (snd (update_route env_fail6 db0 ''hr1'' (Some 5) body_done)) 5 = Str ''pending''
   \<and> map newStatus (leadHistory (snd (update_route env_fail6 db0 ''hr1'' (Some 5) body_done)))
       = [Str ''completed'']"
proof -
  have b: "body_done ''status'' = Str ''completed''" by (simp add: body_done_def)
  show ?thesis
    by (simp add: update_route_def update_history_def update_handoff_def forward_lead_def
        validate_done_any b role_or_hr_def failed_def env_fail6_fields
        getUser_def getLead_def getUsersByRole_def updateLead_def createLeadHistory_def
        update_leads_def insert_leadHistory_def set_columns_owner_status sanitize_owner_status
        empty_obj_at truthy_def or_else_def Let_def db0_def users_defs lead5_columns
        owner_of_def status_of_def)
qed

text \<open>
  C10. When the owner of a lead changes its status to completed and no active user of
  the target role exists (no active accounts user for an hr owner, no active admin for
  an accounts owner), no hand-off takes place: the update is answered 200 with the lead,
  which keeps its owner and has status completed, the history gains the status-change
  entry only, and no notification is written. No statement is rejected by the store.
\<close>

theorem completion_without_target:
  assumes nofault: "fault env = (\<lambda>s k. False)"
    and caller: "getUser False d userId = Ok currentUser"
    and nobody: "role_or_hr currentUser = HR \<and> getUsersByRole False d Accounts = Ok []
               \<or> role_or_hr currentUser = Accounts \<and> getUsersByRole False d Admin = Ok []"
    and valid: "update_validate env (role_or_hr currentUser) body = Inr updates"
    and completed: "updates ''status'' = Str ''completed''"
    and lead: "leads d lid = Some currentLead"
    and owner: "currentLead ''currentOwnerId'' = Str userId"
    and status: "currentLead ''status'' \<noteq> Str ''completed''"
    and run: "update_route env d userId (Some lid) body = (answer, d')"
  shows "answer = Response 200 (Lead_json (leads d' lid))
    \<and> (\<exists>final. leads d' lid = Some final
          \<and> final ''currentOwnerId'' = Str userId
          \<and> final ''status'' = Str ''completed'')
    \<and> (\<exists>primary.
          leadHistory d' = leadHistory d @ [primary]
          \<and> leadId primary = lid
          \<and> fromUserId primary = Str userId \<and> toUserId primary = Str userId
          \<and> previousStatus primary = currentLead ''status''
          \<and> newStatus primary = Str ''completed'')
    \<and> notifications d' = notifications d"
  using run caller valid completed lead owner status nobody update_validate_owner [OF valid]
  by (auto simp: update_route_def nofault getLead_def update_history_def update_handoff_def
      forward_lead_def updateLead_row createLeadHistory_row truthy_def
      empty_obj_def getUsersByRole_def set_columns_owner_status sanitize_owner_status)

theorem completion_without_target_witness:
  "fault env0 = (\<lambda>s k. False)
   \<and> getUser False db_short ''hr1'' = Ok (Some hr1)
   \<and> role_or_hr (Some hr1) = HR \<and> getUsersByRole False db_short Accounts = Ok []
   \<and> update_validate env0 (role_or_hr (Some hr1)) body_done = Inr body_done
   \<and> body_done ''status'' = Str ''completed''
   \<and> leads db_short 5 = Some lead5
   \<and> lead5 ''currentOwnerId'' = Str ''hr1''
   \<and> lead5 ''status'' \<noteq> Str ''completed''
   \<and> status_code (fst (update_route env0 db_short ''hr1'' (Some 5) body_done)) = 200
   \<and> owner_of (snd (update_route env0 db_short ''hr1'' (Some 5) body_done)) 5 = Str ''hr1''
   \<and> status_of (snd (update_route env0 db_short ''hr1'' (Some 5) body_done)) 5 = Str ''completed''
   \<and> map newStatus (leadHistory (snd (update_route env0 db_short ''hr1'' (Some 5) body_done)))
       = [Str ''completed'']"
proof -
  have h1: "fault env0 = (\<lambda>s k. False)" by (simp add: env0_def)
  have h2: "getUser False db_short ''hr1'' = Ok (Some hr1)"
    by (simp add: getUser_def db_short_def db0_def users_defs)
  have h3: "role_or_hr (Some hr1) = HR" by (simp add: role_or_hr_def hr1_def)
  have h3': "getUsersByRole False db_short Accounts = Ok []"
    by (simp add: getUsersByRole_def db_short_def db0_def users_defs)
  have h3'': "role_or_hr (Some hr1) = HR \<and> getUsersByRole False db_short Accounts = Ok []
     \<or> role_or_hr (Some hr1) = Accounts \<and> getUsersByRole False db_short Admin = Ok []"
    using h3 h3' by simp
  have v: "update_validate env0 (role_or_hr (Some hr1)) body_done = Inr body_done"
    using validate_done h3 by simp
  have h4: "body_done ''status'' = Str ''completed''" by (simp add: body_done_def)
  have h5: "leads db_short 5 = Some lead5" by (simp add: db_short_def db0_def)
  have h7: "lead5 ''status'' \<noteq> Str ''completed''" by (simp add: lead5_columns)
  have h9: "update_route env0 db_short ''hr1'' (Some 5) body_done =
     (fst (update_route env0 db_short ''hr1'' (Some 5) body_done),
      snd (update_route env0 db_short ''hr1'' (Some 5) body_done))"
    by simp
  note c = completion_without_target [OF h1 h2 h3'' v h4 h5 lead5_columns(1) h7 h9]
  have "status_code (fst (update_route env0 db_short ''hr1'' (Some 5) body_done)) = 200"
    using c by simp
  moreover
  have "owner_of (snd (update_route env0 db_short ''hr1'' (Some 5) body_done)) 5 = Str ''hr1''"
    using c by (auto simp: owner_of_def)
  moreover
  have "status_of (snd (update_route env0 db_short ''hr1'' (Some 5) body_done)) 5 = Str ''completed''"
    using c by (auto simp: status_of_def)
  moreover
  have "map newStatus (leadHistory (snd (update_route env0 db_short ''hr1'' (Some 5) body_done)))
       = [Str ''completed'']"
    using c by (auto simp: db_short_def db0_def)
  ultimately show ?thesis
    using h1 h2 h3 h3' v h4 h5 lead5_columns(1) h7 by simp
qed

subsection \<open>Field edits\<close>

text \<open>
  C5. The claim: an hr or accounts user who submits a field outside the reduced field
  set gets a validation error; the field is not silently dropped.

  As stated it does not hold: the hr owner of lead 5 submits a new name and is answered
  200, and the name of the lead is what it was.
\<close>

theorem restricted_field_is_accepted:
  "getUser False db0 ''hr1'' = Ok (Some hr1) \<and> user_role hr1 = HR
   \<and> body_name ''name'' = Str ''Mallory''
   \<and> column_of db0 5 ''name'' = Str ''Ravi''
   \<and> status_code (fst (update_route env0 db0 ''hr1'' (Some 5) body_name)) = 200
   \<and> column_of (snd (update_route env0 db0 ''hr1'' (Some 5) body_name)) 5 ''name'' = Str ''Ravi''"
proof -
  have cf: "changedFields lead5 empty_obj = []"
    by (simp add: changedFields_def nonStatusFields_def empty_obj_def)
  have r: "update_route env0 db0 ''hr1'' (Some 5) body_name =
      (Response 200 (Lead_json (Some (set_columns ((sanitize empty_obj)(''updatedAt'' := Date 102)) lead5))),
       db0\<lparr>leads := (leads db0)(5 \<mapsto> set_columns ((sanitize empty_obj)(''updatedAt'' := Date 102)) lead5)\<rparr>)"
    by (simp add: update_route_def update_history_def validate_name cf updateLead_row
        role_or_hr_def getUser_def getLead_def truthy_def env0_fields db0_def users_defs
        lead5_columns empty_obj_at)
  have s: "sanitize empty_obj ''name'' = Undefined"
    by (simp add: sanitize_def empty_obj_def)
  show ?thesis
    unfolding r
    by (simp add: s body_name_def column_of_def set_columns_at lead_columns_def getUser_def
        db0_def users_defs lead5_columns)
qed

text \<open>
  C5, amended. For a caller whose role is hr or accounts, a key of the body outside the
  base schema (status, notes, changeReason, yearOfPassing, collegeName,
  registrationAmount, pendingAmount) is dropped by the validation: whatever value it
  carries, the answer and the database are those of the same request without it.
\<close>

theorem restricted_field_is_dropped:
  assumes caller: "getUser False d userId = Ok currentUser"
    and role: "role_or_hr currentUser = HR \<or> role_or_hr currentUser = Accounts"
    and key: "k \<notin> set (map fst baseUpdateSchema)"
  shows "update_route env d userId id_param (body(k := v)) = update_route env d userId id_param body"
proof -
  have "update_validate env (role_or_hr currentUser) (body(k := v))
      = update_validate env (role_or_hr currentUser) body"
    using role safeParse_other_key [OF key] by (auto simp: update_validate_def)
  then show ?thesis
    using caller by (cases "fault env 0 0") (simp_all add: update_route_def getUser_def Let_def)
qed

theorem restricted_field_is_dropped_witness:
  "getUser False db0 ''hr1'' = Ok (Some hr1)
   \<and> role_or_hr (Some hr1) = HR
   \<and> ''name'' \<notin> set (map fst baseUpdateSchema)
   \<and> update_route env0 db0 ''hr1'' (Some 5) (body_done(''name'' := Str ''Mallory''))
       = update_route env0 db0 ''hr1'' (Some 5) body_done"
proof -
  have h2: "getUser False db0 ''hr1'' = Ok (Some hr1)"
    by (simp add: getUser_def db0_def users_defs)
  have h3: "role_or_hr (Some hr1) = HR" by (simp add: role_or_hr_def hr1_def)
  have h3': "role_or_hr (Some hr1) = HR \<or> role_or_hr (Some hr1) = Accounts"
    using h3 by simp
  show ?thesis
    by (intro conjI h2 h3 name_not_base restricted_field_is_dropped [OF h2 h3' name_not_base])
qed

text \<open>
  C8. The claim: an update that leaves the status alone writes exactly one entry (with
  equal previous and new status and the list of changed fields) when at least one
  submitted field differs from the stored value, and none when every submitted field
  equals the stored value.

  The route compares the eleven fields of \<open>nonStatusFields\<close> only, which leave out
  four of the fields an hr user may edit (yearOfPassing, collegeName,
  registrationAmount, pendingAmount). The hr owner of lead 5 submits a new college
  name: the request is answered 200, the stored value changes, and no entry is written.
\<close>

theorem college_edit_leaves_no_entry:
  "getUser False db0 ''hr1'' = Ok (Some hr1) \<and> user_role hr1 = HR
   \<and> column_of db0 5 ''currentOwnerId'' = Str ''hr1''
   \<and> column_of db0 5 ''collegeName'' = Str ''Old College''
   \<and> body_college ''collegeName'' = Str ''New College''
   \<and> body_college ''status'' = Undefined
   \<and> status_code (fst (update_route env0 db0 ''hr1'' (Some 5) body_college)) = 200
   \<and> column_of (snd (update_route env0 db0 ''hr1'' (Some 5) body_college)) 5 ''collegeName''
       = Str ''New College''
   \<and> leadHistory (snd (update_route env0 db0 ''hr1'' (Some 5) body_college)) = leadHistory db0"
proof -
  have cf: "changedFields lead5 body_college = []"
    by (simp add: changedFields_def nonStatusFields_def body_college_def empty_obj_def)
  have b: "body_college ''collegeName'' = Str ''New College''" "body_college ''status'' = Undefined"
    by (simp_all add: body_college_def empty_obj_def)
  have r: "update_route env0 db0 ''hr1'' (Some 5) body_college =
      (Response 200 (Lead_json (Some (set_columns ((sanitize body_college)(''updatedAt'' := Date 102)) lead5))),
       db0\<lparr>leads := (leads db0)(5 \<mapsto> set_columns ((sanitize body_college)(''updatedAt'' := Date 102)) lead5)\<rparr>)"
    by (simp add: update_route_def update_history_def validate_college cf b updateLead_row
        role_or_hr_def getUser_def getLead_def truthy_def env0_fields db0_def users_defs lead5_columns)
  have s: "sanitize body_college ''collegeName'' = Str ''New College''"
    by (simp add: sanitize_def b)
  show ?thesis
    unfolding r
    by (simp add: b s column_of_def set_columns_at lead_columns_def getUser_def db0_def
        users_defs lead5_columns)
qed

subsection \<open>Release and destroy\<close>

text \<open>
  C9. When the hr owner of a lead deletes it, the lead is released: with no statement
  rejected, the request is answered 200, the owner of the lead is null and its status
  is new, and the history gains exactly one entry, marked unassigned, from the owner to
  null. The insert and the update are one transaction: when the store rejects either
  statement the request is answered 500 and the four tables are as before.
\<close>

theorem release_by_owner:
  assumes reads: "\<not> fault env 0 0" "\<not> fault env 1 0"
    and caller: "getUser False d userId = Ok currentUser" "role_or_hr currentUser = HR"
    and lead: "leads d lid = Some currentLead"
    and owner: "currentLead ''currentOwnerId'' = Str userId"
    and run: "delete_route env d userId (Some lid) = (answer, d')"
  shows "(\<not> fault env 2 0 \<and> \<not> fault env 2 1 \<longrightarrow>
            answer = Response 200 (Success_message ''Lead returned to Lead Management for reassignment'')
          \<and> (\<exists>released. leads d' lid = Some released
                \<and> released ''currentOwnerId'' = Null \<and> released ''status'' = Str ''new'')
          \<and> (\<exists>entry. leadHistory d' = leadHistory d @ [entry]
                \<and> leadId entry = lid
                \<and> fromUserId entry = Str userId \<and> toUserId entry = Null
                \<and> previousStatus entry = currentLead ''status''
                \<and> newStatus entry = Str ''new''
                \<and> changeData entry = Unassigned (Str userId) userId (clock env 2)
                \<and> changedByUserId entry = userId)
          \<and> users d' = users d \<and> notifications d' = notifications d)
       \<and> (fault env 2 0 \<or> fault env 2 1 \<longrightarrow>
            answer = Response 500 (Message ''Failed to delete lead'') \<and> tables d' = tables d)"
proof -
  note defs = delete_route_def getLead_def unassignLeadWithHistory_def
      unassignLeadWithHistory_body_def transaction_def insert_leadHistory_def update_leads_def
      set_columns_owner_status empty_obj_def tables_def failed_def Let_def
  consider (first) "fault env 2 0" | (second) "\<not> fault env 2 0" "fault env 2 1"
    | (none) "\<not> fault env 2 0" "\<not> fault env 2 1"
    by blast
  then show ?thesis
  proof cases
    case first
    with assms show ?thesis by (auto simp: defs)
  next
    case second
    with assms show ?thesis by (auto simp: defs)
  next
    case none
    with assms show ?thesis by (auto simp: defs)
  qed
qed

theorem release_by_owner_witness:
  "\<not> fault env0 0 0 \<and> \<not> fault env0 1 0
   \<and> getUser False db0 ''hr1'' = Ok (Some hr1) \<and> role_or_hr (Some hr1) = HR
   \<and> leads db0 5 = Some lead5 \<and> lead5 ''currentOwnerId'' = Str ''hr1''
   \<and> \<not> fault env0 2 0 \<and> \<not> fault env0 2 1
   \<and> status_code (fst (delete_route env0 db0 ''hr1'' (Some 5))) = 200
   \<and> owner_of (snd (delete_route env0 db0 ''hr1'' (Some 5))) 5 = Null
   \<and> status_of (snd (delete_route env0 db0 ''hr1'' (Some 5))) 5 = Str ''new''
   \<and> map changeData (leadHistory (snd (delete_route env0 db0 ''hr1'' (Some 5))))
       = [Unassigned (Str ''hr1'') ''hr1'' 102]"
proof -
  have f: "\<not> fault env0 0 0" "\<not> fault env0 1 0" "\<not> fault env0 2 0" "\<not> fault env0 2 1"
    by (simp_all add: env0_fields)
  have h2: "getUser False db0 ''hr1'' = Ok (Some hr1)"
    by (simp add: getUser_def db0_def users_defs)
  have h3: "role_or_hr (Some hr1) = HR" by (simp add: role_or_hr_def hr1_def)
  have h5: "leads db0 5 = Some lead5" by (simp add: db0_def)
  have h9: "delete_route env0 db0 ''hr1'' (Some 5) =
     (fst (delete_route env0 db0 ''hr1'' (Some 5)), snd (delete_route env0 db0 ''hr1'' (Some 5)))"
    by simp
  note c = release_by_owner [OF f(1) f(2) h2 h3 h5 lead5_columns(1) h9]
  have "status_code (fst (delete_route env0 db0 ''hr1'' (Some 5))) = 200"
    using c f by simp
  moreover
  have "owner_of (snd (delete_route env0 db0 ''hr1'' (Some 5))) 5 = Null"
    using c f by (auto simp: owner_of_def)
  moreover
  have "status_of (snd (delete_route env0 db0 ''hr1'' (Some 5))) 5 = Str ''new''"
    using c f by (auto simp: status_of_def)
  moreover
  have "map changeData (leadHistory (snd (delete_route env0 db0 ''hr1'' (Some 5))))
       = [Unassigned (Str ''hr1'') ''hr1'' 102]"
    using c f by (auto simp: db0_def env0_fields)
  ultimately show ?thesis
    using f h2 h3 h5 lead5_columns(1) by simp
qed

text \<open>
  C6. The claim: a destroy writes a final entry that documents the lead, then deletes
  the earlier entries and the lead, so that the final entry still exists afterwards.

  \<^verbatim>\<open>deleteLeadWithHistory\<close> inserts the final entry and then deletes every entry of
  the lead, the one just inserted included (the delete is by lead id and comes second).
  After the manager's delete of lead 5 the lead is gone and no entry is left, although
  the sequence shows that one was inserted.
\<close>

theorem deleted_lead_keeps_no_entry:
  "getUser False db_claimed ''mgr1'' = Ok (Some mgr1) \<and> user_role mgr1 = Manager
   \<and> leads db_claimed 5 = Some lead5
   \<and> leadHistory db_claimed = [claim5] \<and> leadId claim5 = 5
   \<and> status_code (fst (delete_route env0 db_claimed ''mgr1'' (Some 5))) = 200
   \<and> leads (snd (delete_route env0 db_claimed ''mgr1'' (Some 5))) 5 = None
   \<and> leadHistory (snd (delete_route env0 db_claimed ''mgr1'' (Some 5))) = []
   \<and> leadHistory_seq db_claimed = 1
   \<and> leadHistory_seq (snd (delete_route env0 db_claimed ''mgr1'' (Some 5))) = 2"
  by (simp add: delete_route_def role_or_hr_def db_claimed_def claim5_def eval_defs)

subsection \<open>Reading the history\<close>

text \<open>
  C7. The claim: the history of a lead comes back in a total order by a sequence
  counter, newest first, so that any two entries are told apart and the order is the
  order of the mutations.

  As stated it does not hold: the query sorts by \<^verbatim>\<open>changedAt\<close> alone. Of two entries
  written one after the other at the same clock reading, the query may return the
  older one first.
\<close>

theorem history_may_come_oldest_first:
  "map history_id (leadHistory db_tie) = [1, 2]
   \<and> map changedAt (leadHistory db_tie) = [7, 7]
   \<and> getLeadHistory_returns db_tie 1 (leadHistory db_tie)"
  by (simp add: getLeadHistory_returns_def db_tie_history)

text \<open>
  C7, amended. The history of a lead is all its entries sorted by \<^verbatim>\<open>changedAt\<close>,
  latest first, and by nothing else. When the timestamps of the lead's entries strictly
  increase in the order of insertion, the query has exactly one result, the entries
  newest first; entries with equal timestamps come in an order the query leaves open.
\<close>

theorem history_order:
  assumes "sorted_wrt (\<lambda>a b. changedAt a < changedAt b)
             (filter (\<lambda>h. leadId h = lid) (leadHistory d))"
  shows "getLeadHistory_returns d lid rows
           \<longleftrightarrow> rows = rev (filter (\<lambda>h. leadId h = lid) (leadHistory d))"
proof
  assume "getLeadHistory_returns d lid rows"
  then show "rows = rev (filter (\<lambda>h. leadId h = lid) (leadHistory d))"
    using assms newest_first_unique [of rows _ changedAt]
    by (simp add: getLeadHistory_returns_def)
next
  assume r: "rows = rev (filter (\<lambda>h. leadId h = lid) (leadHistory d))"
  have "sorted_wrt (\<lambda>a b. changedAt a \<le> changedAt b) (filter (\<lambda>h. leadId h = lid) (leadHistory d))"
    using assms by (rule sorted_wrt_mono_rel [rotated]) simp
  with r show "getLeadHistory_returns d lid rows"
    by (simp add: getLeadHistory_returns_def sorted_wrt_rev)
qed

theorem history_order_witness:
  "sorted_wrt (\<lambda>a b. changedAt a < changedAt b) (filter (\<lambda>h. leadId h = 1) (leadHistory db_seq))
   \<and> map history_id (rev (filter (\<lambda>h. leadId h = 1) (leadHistory db_seq))) = [2, 1]
   \<and> getLeadHistory_returns db_seq 1 (rev (filter (\<lambda>h. leadId h = 1) (leadHistory db_seq)))"
proof -
  have h: "sorted_wrt (\<lambda>a b. changedAt a < changedAt b)
             (filter (\<lambda>h. leadId h = 1) (leadHistory db_seq))"
    by (simp add: db_seq_history)
  have i: "map history_id (rev (filter (\<lambda>h. leadId h = 1) (leadHistory db_seq))) = [2, 1]"
    by (simp add: db_seq_history)
  have "getLeadHistory_returns db_seq 1 (rev (filter (\<lambda>h. leadId h = 1) (leadHistory db_seq)))"
    using history_order [OF h] by blast
  with h i show ?thesis by blast
qed

end
